theory Spec2Isabelle
  imports Main
begin

section \<open>knex-types: TypeScript declarations from a PostgreSQL catalog\<close>

text \<open>
  A shallow embedding of \<^verbatim>\<open>src/main.ts\<close>. Strings are lists of bytes, the UTF-8
  encoding of the strings of the program. The output stream and the database handle are
  observed through the sequence of calls made on them. Every awaited query may reject; a
  rejected query aborts the \<^verbatim>\<open>try\<close> block. \<open>updateTypes\<close> below is the run on an
  output stream whose calls return; \<open>updateTypesOn\<close> is the run on any stream, where
  creating the stream and every call on it may throw. An option that is a string or
  absent is tested as JavaScript does: \<^verbatim>\<open>undefined\<close> and the empty string are false.
\<close>

subsection \<open>String helpers of the JavaScript runtime\<close>

text \<open>\<^verbatim>\<open>s.startsWith(p)\<close> and \<^verbatim>\<open>s.endsWith(p)\<close>.\<close>

definition startsWith :: "string \<Rightarrow> string \<Rightarrow> bool" where
  "startsWith s p = (take (length p) s = p)"

definition endsWith :: "string \<Rightarrow> string \<Rightarrow> bool" where
  "endsWith s p = (length p \<le> length s \<and> drop (length s - length p) s = p)"

text \<open>\<^verbatim>\<open>s.split(",")\<close>: the empty string splits into one empty piece.\<close>

fun split :: "char \<Rightarrow> string \<Rightarrow> string list" where
  "split sep [] = [[]]"
| "split sep (c # cs) =
     (if c = sep then [] # split sep cs
      else (case split sep cs of [] \<Rightarrow> [[c]] | w # ws \<Rightarrow> (c # w) # ws))"

text \<open>
  \<^verbatim>\<open>s.trim()\<close> removes white space and line terminators from both ends: the code points
  U+0009 to U+000D, U+0020, U+00A0, U+1680, U+2000 to U+200A, U+2028, U+2029, U+202F,
  U+205F, U+3000 and U+FEFF, here in their UTF-8 encoding.
\<close>

definition whiteSpace :: "string list" where
  "whiteSpace =
     [[CHR 0x09], [CHR 0x0A], [CHR 0x0B], [CHR 0x0C], [CHR 0x0D], [CHR 0x20],
      [CHR 0xC2, CHR 0xA0],
      [CHR 0xE1, CHR 0x9A, CHR 0x80],
      [CHR 0xE2, CHR 0x80, CHR 0x80], [CHR 0xE2, CHR 0x80, CHR 0x81],
      [CHR 0xE2, CHR 0x80, CHR 0x82], [CHR 0xE2, CHR 0x80, CHR 0x83],
      [CHR 0xE2, CHR 0x80, CHR 0x84], [CHR 0xE2, CHR 0x80, CHR 0x85],
      [CHR 0xE2, CHR 0x80, CHR 0x86], [CHR 0xE2, CHR 0x80, CHR 0x87],
      [CHR 0xE2, CHR 0x80, CHR 0x88], [CHR 0xE2, CHR 0x80, CHR 0x89],
      [CHR 0xE2, CHR 0x80, CHR 0x8A],
      [CHR 0xE2, CHR 0x80, CHR 0xA8], [CHR 0xE2, CHR 0x80, CHR 0xA9],
      [CHR 0xE2, CHR 0x80, CHR 0xAF],
      [CHR 0xE2, CHR 0x81, CHR 0x9F],
      [CHR 0xE3, CHR 0x80, CHR 0x80],
      [CHR 0xEF, CHR 0xBB, CHR 0xBF]]"

text \<open>Removing from the front every leading sequence of one to three bytes that is in \<open>ws\<close>.\<close>

fun dropLeading :: "string list \<Rightarrow> string \<Rightarrow> string" where
  "dropLeading ws [] = []"
| "dropLeading ws (c # cs) =
     (if [c] \<in> set ws then dropLeading ws cs
      else if take 2 (c # cs) \<in> set ws then dropLeading ws (drop 1 cs)
      else if take 3 (c # cs) \<in> set ws then dropLeading ws (drop 2 cs)
      else c # cs)"

definition trim :: "string \<Rightarrow> string" where
  "trim s = rev (dropLeading (map rev whiteSpace) (rev (dropLeading whiteSpace s)))"

text \<open>
  \<^verbatim>\<open>JSON.stringify\<close> of a string: the text between double quotes, with the quote, the
  backslash and the control characters escaped.
\<close>

definition hexDigit :: "nat \<Rightarrow> char" where
  "hexDigit n = ''0123456789abcdef'' ! (n mod 16)"

definition jsonEscape :: "char \<Rightarrow> string" where
  "jsonEscape c =
     (if c = CHR 0x22 then [CHR 0x5C, CHR 0x22]
      else if c = CHR 0x5C then [CHR 0x5C, CHR 0x5C]
      else if c = CHR 0x08 then [CHR 0x5C, CHR ''b'']
      else if c = CHR 0x0C then [CHR 0x5C, CHR ''f'']
      else if c = CHR 0x0A then [CHR 0x5C, CHR ''n'']
      else if c = CHR 0x0D then [CHR 0x5C, CHR ''r'']
      else if c = CHR 0x09 then [CHR 0x5C, CHR ''t'']
      else if (of_char c :: nat) < 32
        then [CHR 0x5C, CHR ''u'', CHR ''0'', CHR ''0'',
              hexDigit (of_char c div 16), hexDigit (of_char c)]
      else [c])"

definition jsonStringify :: "string \<Rightarrow> string" where
  "jsonStringify s = [CHR 0x22] @ concat (map jsonEscape s) @ [CHR 0x22]"

subsection \<open>Data\<close>

text \<open>The rows as the queries select them, and the declared types of the source.\<close>

record Enum =
  key :: string
  val :: string

record Column =
  "table" :: string
  column :: string
  schema :: string
  nullable :: bool
  default :: "string option"
  type :: string
  udt :: string

text \<open>A row of \<^verbatim>\<open>table_constraints\<close>: \<^verbatim>\<open>constraint_name\<close>, \<^verbatim>\<open>constraint_type\<close>.\<close>

record TableConstraint =
  tc_constraint_name :: string
  tc_constraint_type :: string

text \<open>
  A row of \<^verbatim>\<open>key_column_usage\<close> or \<^verbatim>\<open>constraint_column_usage\<close>
  (\<^verbatim>\<open>Partial<Key>\<close>), and \<^verbatim>\<open>Key\<close>, which spreads such a row and adds the constraint
  type and the referenced row; both are \<^verbatim>\<open>undefined\<close> when \<^verbatim>\<open>find\<close> finds nothing.
\<close>

record KeyRow =
  key_schema :: string
  key_table :: string
  key_column :: string
  constraint_name :: string

record Key = KeyRow +
  constraint_type :: "string option"
  refSchema :: "KeyRow option"

text \<open>An element of \<^verbatim>\<open>columnsWithKeyInfo\<close>.\<close>

record ColumnWithKeyInfo = Column +
  is_foreign_key :: bool
  is_unique :: bool
  is_primary_key :: bool
  ref_schema :: "KeyRow option"

datatype StringOrList = Str string | Lst "string list"

text \<open>
  \<^verbatim>\<open>Options\<close>. The field \<^verbatim>\<open>output\<close> only selects the stream that receives the calls
  recorded below, so it has no field here.
\<close>

record Options =
  opt_overrides :: "(string \<rightharpoonup> string) option"
  opt_prefix :: "string option"
  opt_suffix :: "string option"
  opt_schema :: "StringOrList option"
  opt_exclude :: "StringOrList option"

text \<open>
  The two functions imported from lodash are parameters of the model. \<^verbatim>\<open>camelCase\<close> is
  also applied to \<^verbatim>\<open>undefined\<close>, which is \<open>None\<close>.
\<close>

record lodash =
  camelCase :: "string option \<Rightarrow> string"
  upperFirst :: "string \<Rightarrow> string"

text \<open>
  The database handle: one function for each query of the source, taking what the query
  is built from. A rejected promise is \<open>Inl\<close>; \<open>Thrown\<close> is an exception thrown by a
  call that is not a query.
\<close>

datatype error = QueryError string | Thrown string

record knex =
  selectEnums :: "error + Enum list"
  selectColumns :: "string list \<Rightarrow> string list \<Rightarrow> string list \<Rightarrow> error + Column list"
  selectKeyConstraints :: "string \<Rightarrow> error + TableConstraint list"
  selectKeyUsage :: "string \<Rightarrow> string list \<Rightarrow> error + KeyRow list"
  selectColumnUsage :: "string list \<Rightarrow> error + KeyRow list"

text \<open>The calls made on the output stream and on the database handle.\<close>

datatype call = Write string | End | Destroy

subsection \<open>getType\<close>

definition stringTypes :: "string list" where
  "stringTypes = [''text'', ''citext'', ''money'', ''numeric'', ''int8'', ''char'',
     ''character'', ''bpchar'', ''varchar'', ''time'', ''tsquery'', ''tsvector'', ''uuid'',
     ''xml'', ''cidr'', ''inet'', ''macaddr'']"

definition numberTypes :: "string list" where
  "numberTypes = [''smallint'', ''integer'', ''int'', ''int2'', ''int4'', ''real'',
     ''float'', ''float4'', ''float8'']"

definition dateTypes :: "string list" where
  "dateTypes = [''date'', ''timestamp'', ''timestamptz'']"

definition jsonTypes :: "string list" where
  "jsonTypes = [''json'', ''jsonb'']"

text \<open>The branch of \<^verbatim>\<open>case "json": case "jsonb":\<close>.\<close>

definition jsonType :: "string option \<Rightarrow> string" where
  "jsonType defaultValue =
     (case defaultValue of
        None \<Rightarrow> ''unknown''
      | Some d \<Rightarrow>
          if d \<noteq> [] then
            (if startsWith d [CHR 0x27, CHR ''{''] then ''Record<string, unknown>''
             else if startsWith d [CHR 0x27, CHR ''[''] then ''unknown[]''
             else ''unknown'')
          else ''unknown'')"

text \<open>
  The \<^verbatim>\<open>switch (udt)\<close> of \<^verbatim>\<open>getType\<close>, its case labels in the order of the source
  (the parameter \<^verbatim>\<open>udt\<close> is \<open>udtName\<close> here);
  \<^verbatim>\<open>customTypes\<close> is the \<^verbatim>\<open>Map\<close> from enum type names to declaration names.
\<close>

definition getType :: "string \<Rightarrow> (string \<rightharpoonup> string) \<Rightarrow> string option \<Rightarrow> string" where
  "getType udtName customTypes defaultValue =
     (if udtName = ''bool'' then ''boolean''
      else if udtName \<in> set stringTypes then ''string''
      else if udtName \<in> set numberTypes then ''number''
      else if udtName \<in> set dateTypes then ''Date''
      else if udtName \<in> set jsonTypes then jsonType defaultValue
      else if udtName = ''bytea'' then ''Buffer''
      else if udtName = ''interval'' then ''PostgresInterval''
      else (case customTypes udtName of Some t \<Rightarrow> t | None \<Rightarrow> ''unknown''))"

subsection \<open>sanitize\<close>

text \<open>The test \<^verbatim>\<open>/^[a-zA-Z$_][a-zA-Z$_0-9]*$/\<close>.\<close>

definition identStart :: "char list" where
  "identStart = ''abcdefghijklmnopqrstuvwxyzABCDEFGHIJKLMNOPQRSTUVWXYZ$_''"

definition identPart :: "char list" where
  "identPart = identStart @ ''0123456789''"

definition isIdentifier :: "string \<Rightarrow> bool" where
  "isIdentifier name =
     (case name of [] \<Rightarrow> False
      | c # cs \<Rightarrow> c \<in> set identStart \<and> list_all (\<lambda>d. d \<in> set identPart) cs)"

definition sanitize :: "string \<Rightarrow> string" where
  "sanitize name = (if isIdentifier name then name else jsonStringify name)"

subsection \<open>updateTypes\<close>

text \<open>\<^verbatim>\<open>options.schema\<close> and \<^verbatim>\<open>options.exclude\<close>: a string is split at commas and trimmed.\<close>

definition entries :: "StringOrList option \<Rightarrow> string list \<Rightarrow> string list" where
  "entries v dflt =
     (case v of
        None \<Rightarrow> dflt
      | Some (Str s) \<Rightarrow> map trim (split CHR '','' s)
      | Some (Lst xs) \<Rightarrow> xs)"

text \<open>
  The \<^verbatim>\<open>reduce\<close> of lines 76 to 80: each entry is pushed, as it is, onto the first list
  when it does not start with \<^verbatim>\<open>!\<close> and onto the second when it does.
\<close>

definition partitionSchemas :: "string list \<Rightarrow> string list \<times> string list" where
  "partitionSchemas sch =
     foldl (\<lambda>acc s. if startsWith s ''!'' then (fst acc, snd acc @ [s])
                     else (fst acc @ [s], snd acc))
       ([], []) sch"

text \<open>
  An \<^verbatim>\<open>overrides\<close> object is represented by its property reads: \<open>ov k\<close> is the text
  that \<^verbatim>\<open>overrides[k]\<close> gives in a template literal, for an own or an inherited
  property, and \<open>None\<close> when the read gives \<^verbatim>\<open>undefined\<close>. The object \<^verbatim>\<open>{}\<close> that
  replaces an absent option inherits the properties of \<^verbatim>\<open>Object.prototype\<close>, which are
  built-in functions and, for \<^verbatim>\<open>__proto__\<close>, the prototype itself; their texts are those
  that Node prints.
\<close>

definition nativeFunction :: "string \<Rightarrow> string" where
  "nativeFunction name = ''function '' @ name @ ''() { [native code] }''"

definition emptyObject :: "string \<rightharpoonup> string" where
  "emptyObject =
     map_of
       [(''constructor'', nativeFunction ''Object''),
        (''__defineGetter__'', nativeFunction ''__defineGetter__''),
        (''__defineSetter__'', nativeFunction ''__defineSetter__''),
        (''hasOwnProperty'', nativeFunction ''hasOwnProperty''),
        (''__lookupGetter__'', nativeFunction ''__lookupGetter__''),
        (''__lookupSetter__'', nativeFunction ''__lookupSetter__''),
        (''isPrototypeOf'', nativeFunction ''isPrototypeOf''),
        (''propertyIsEnumerable'', nativeFunction ''propertyIsEnumerable''),
        (''toString'', nativeFunction ''toString''),
        (''valueOf'', nativeFunction ''valueOf''),
        (''__proto__'', ''[object Object]''),
        (''toLocaleString'', nativeFunction ''toLocaleString'')]"

text \<open>\<^verbatim>\<open>overrides[k] ?? upperFirst(camelCase(k))\<close>.\<close>

definition nameOf :: "lodash \<Rightarrow> (string \<rightharpoonup> string) \<Rightarrow> string \<Rightarrow> string" where
  "nameOf L ov k = (case ov k of Some n \<Rightarrow> n | None \<Rightarrow> upperFirst L (camelCase L (Some k)))"

text \<open>
  The \<^verbatim>\<open>forEach\<close> over \<^verbatim>\<open>enums\<close>: \<open>prev\<close> is \<^verbatim>\<open>enums[i - 1]\<close>, the head of the rest is
  \<^verbatim>\<open>enums[i + 1]\<close>, and both are \<^verbatim>\<open>undefined\<close> outside the array.
\<close>

definition sameKey :: "Enum option \<Rightarrow> Enum \<Rightarrow> bool" where
  "sameKey other x = (case other of None \<Rightarrow> False | Some y \<Rightarrow> key y = key x)"

fun peek :: "'a list \<Rightarrow> 'a option" where
  "peek [] = None"
| "peek (y # ys) = Some y"

fun enumWrites :: "lodash \<Rightarrow> (string \<rightharpoonup> string) \<Rightarrow> Enum option \<Rightarrow> Enum list \<Rightarrow> string list" where
  \<open>enumWrites L ov prev [] = []\<close>
| \<open>enumWrites L ov prev (x # rest) =
     (if sameKey prev x then [] else [''export const '' @ nameOf L ov (key x) @ '' = {\<newline>'']) @
     [''  "'' @ val x @ ''": "'' @ val x @ ''",\<newline>''] @
     (if sameKey (peek rest) x then []
      else [''};\<newline>'',
            ''export type '' @ nameOf L ov (key x) @ '' = keyof typeof '' @ nameOf L ov (key x)
              @ '';\<newline>\<newline>'']) @
     enumWrites L ov (Some x) rest\<close>

text \<open>\<^verbatim>\<open>new Map(enums.map(...))\<close>: a later entry replaces an earlier one of the same key.\<close>

definition enumsMap :: "lodash \<Rightarrow> (string \<rightharpoonup> string) \<Rightarrow> Enum list \<Rightarrow> (string \<rightharpoonup> string)" where
  "enumsMap L ov enums = foldl (\<lambda>m x. m(key x \<mapsto> nameOf L ov (key x))) Map.empty enums"

text \<open>The element that \<^verbatim>\<open>keyUsage.map\<close> builds from a row (lines 192 to 205).\<close>

definition mkKey :: "TableConstraint list \<Rightarrow> KeyRow list \<Rightarrow> KeyRow \<Rightarrow> Key" where
  "mkKey keyConstraints columnUsage k =
     \<lparr> key_schema = key_schema k, key_table = key_table k, key_column = key_column k,
       constraint_name = constraint_name k,
       constraint_type =
         map_option tc_constraint_type
           (find (\<lambda>c. tc_constraint_name c = constraint_name k) keyConstraints),
       refSchema = find (\<lambda>c. constraint_name c = constraint_name k) columnUsage \<rparr>"

text \<open>
  The loop over \<^verbatim>\<open>includeSchemas\<close> (lines 149 to 207): three queries for each schema, one
  after the other; the first rejection leaves the loop.
\<close>

fun fetchKeys :: "knex \<Rightarrow> string list \<Rightarrow> Key list \<Rightarrow> error + Key list" where
  "fetchKeys db [] keys = Inr keys"
| "fetchKeys db (s # ss) keys =
     (case selectKeyConstraints db s of
        Inl e \<Rightarrow> Inl e
      | Inr keyConstraints \<Rightarrow>
          (case selectKeyUsage db s (map tc_constraint_name keyConstraints) of
             Inl e \<Rightarrow> Inl e
           | Inr keyUsage \<Rightarrow>
               (case selectColumnUsage db (map tc_constraint_name keyConstraints) of
                  Inl e \<Rightarrow> Inl e
                | Inr columnUsage \<Rightarrow>
                    fetchKeys db ss (keys @ map (mkKey keyConstraints columnUsage) keyUsage))))"

text \<open>The predicate of the four lookups in \<^verbatim>\<open>keys\<close> (lines 212 to 235).\<close>

definition keyMatches :: "Column \<Rightarrow> string \<Rightarrow> Key \<Rightarrow> bool" where
  "keyMatches c ty k =
     (key_table k = table c \<and> key_column k = column c \<and> constraint_type k = Some ty)"

definition withKeyInfo :: "Key list \<Rightarrow> Column \<Rightarrow> ColumnWithKeyInfo" where
  "withKeyInfo keys c =
     \<lparr> table = table c, column = column c, schema = schema c, nullable = nullable c,
       default = default c, type = type c, udt = udt c,
       is_foreign_key = list_ex (keyMatches c ''FOREIGN KEY'') keys,
       is_unique = list_ex (keyMatches c ''UNIQUE'') keys,
       is_primary_key = list_ex (keyMatches c ''PRIMARY KEY'') keys,
       ref_schema =
         (case find (keyMatches c ''FOREIGN KEY'') keys of None \<Rightarrow> None | Some k \<Rightarrow> refSchema k) \<rparr>"

text \<open>The elements of a \<^verbatim>\<open>Set\<close> in the order \<^verbatim>\<open>Array.from\<close> lists them: first insertion.\<close>

definition setOrder :: "string list \<Rightarrow> string list" where
  "setOrder xs = foldl (\<lambda>acc v. if v \<in> set acc then acc else acc @ [v]) [] xs"

definition tableSet :: "ColumnWithKeyInfo list \<Rightarrow> string list" where
  "tableSet cs =
     setOrder (map (\<lambda>x. (if schema x \<noteq> ''public'' then schema x @ ''.'' else []) @ table x) cs)"

definition tableWrites :: "lodash \<Rightarrow> (string \<rightharpoonup> string) \<Rightarrow> string list \<Rightarrow> string list" where
  \<open>tableWrites L ov ts =
     [''export enum Table {\<newline>''] @
     map (\<lambda>v. ''  '' @ nameOf L ov v @ '' = "'' @ v @ ''",\<newline>'') ts @
     [''}\<newline>\<newline>'', ''export type Tables = {\<newline>''] @
     map (\<lambda>k. ''  "'' @ k @ ''": '' @ nameOf L ov k @ '',\<newline>'') ts @
     [''};\<newline>\<newline>'']\<close>

text \<open>
  The body of the \<^verbatim>\<open>forEach\<close> over \<^verbatim>\<open>columnsWithKeyInfo\<close> (lines 261 to 308), in
  the order of the source: the names, the type, the brand, the null union.
\<close>

definition schemaName :: "lodash \<Rightarrow> ColumnWithKeyInfo \<Rightarrow> string" where
  "schemaName L x =
     (if schema x \<noteq> ''public'' then upperFirst L (camelCase L (Some (schema x))) else [])"

definition tableName :: "lodash \<Rightarrow> (string \<rightharpoonup> string) \<Rightarrow> ColumnWithKeyInfo \<Rightarrow> string" where
  "tableName L ov x = nameOf L ov (table x)"

text \<open>Lines 275 to 278; \<^verbatim>\<open>x.udt.substring(1)\<close> drops the first character.\<close>

definition arrayOrType :: "(string \<rightharpoonup> string) \<Rightarrow> ColumnWithKeyInfo \<Rightarrow> string" where
  "arrayOrType em x =
     (if type x = ''ARRAY'' then getType (drop 1 (udt x)) em (default x) @ ''[]''
      else getType (udt x) em (default x))"

text \<open>
  Lines 281 to 292, the text appended to the type. \<^verbatim>\<open>x.ref_schema?.table\<close> is
  \<^verbatim>\<open>undefined\<close> when there is no referenced row. The source also computes
  \<^verbatim>\<open>refSchemaName\<close> there and does not use it.
\<close>

definition brand :: "lodash \<Rightarrow> (string \<rightharpoonup> string) \<Rightarrow> ColumnWithKeyInfo \<Rightarrow> string" where
  \<open>brand L ov x =
     (if column x = ''id'' \<and> (is_unique x \<or> is_primary_key x) then
        '' & { _brand: "'' @ (schemaName L x @ tableName L ov x) @ ''" }''
      else if is_foreign_key x \<and> endsWith (column x) ''id'' then
        '' & { __flavor?: "''
          @ (upperFirst L (camelCase L (map_option key_table (ref_schema x))) @ ''Id'') @ ''" }''
      else [])\<close>

definition fieldType :: "lodash \<Rightarrow> (string \<rightharpoonup> string) \<Rightarrow> (string \<rightharpoonup> string) \<Rightarrow> ColumnWithKeyInfo \<Rightarrow> string" where
  "fieldType L ov em x =
     arrayOrType em x @ brand L ov x @ (if nullable x then '' | null'' else [])"

definition sameTable :: "ColumnWithKeyInfo option \<Rightarrow> ColumnWithKeyInfo \<Rightarrow> bool" where
  "sameTable other x = (case other of None \<Rightarrow> False | Some y \<Rightarrow> table y = table x)"

fun recordWrites ::
  "lodash \<Rightarrow> (string \<rightharpoonup> string) \<Rightarrow> (string \<rightharpoonup> string) \<Rightarrow> ColumnWithKeyInfo option \<Rightarrow>
   ColumnWithKeyInfo list \<Rightarrow> string list" where
  "recordWrites L ov em prev [] = []"
| "recordWrites L ov em prev (x # rest) =
     (if sameTable prev x then []
      else [''export type '' @ schemaName L x @ tableName L ov x @ '' = {\<newline>'']) @
     [''  '' @ sanitize (column x) @ '': '' @ fieldType L ov em x @ '';\<newline>''] @
     (if sameTable (peek rest) x then [] else [''};\<newline>\<newline>'']) @
     recordWrites L ov em (Some x) rest"

text \<open>
  The \<^verbatim>\<open>try\<close> block (lines 94 to 313): the texts written, in order, up to the end of the
  block or to the first rejected query, and how the block ends.
\<close>

definition tryBlock ::
  "lodash \<Rightarrow> knex \<Rightarrow> Options \<Rightarrow> (string \<rightharpoonup> string) \<Rightarrow> string list \<Rightarrow> string list \<Rightarrow> string list \<Rightarrow>
   string list \<times> (error + unit)" where
  "tryBlock L db options ov includeSchemas excludeSchemas exclude =
     (case selectEnums db of
        Inl e \<Rightarrow> ([], Inl e)
      | Inr enums \<Rightarrow>
          (case selectColumns db includeSchemas excludeSchemas exclude of
             Inl e \<Rightarrow> (enumWrites L ov None enums, Inl e)
           | Inr columns \<Rightarrow>
               (case fetchKeys db includeSchemas [] of
                  Inl e \<Rightarrow> (enumWrites L ov None enums, Inl e)
                | Inr keys \<Rightarrow>
                    (let columnsWithKeyInfo = map (withKeyInfo keys) columns
                     in (enumWrites L ov None enums
                         @ tableWrites L ov (tableSet columnsWithKeyInfo)
                         @ recordWrites L ov (enumsMap L ov enums) None columnsWithKeyInfo
                         @ (case opt_suffix options of
                              None \<Rightarrow> []
                            | Some sfx \<Rightarrow> if sfx \<noteq> [] then [sfx, ''\<newline>''] else []),
                         Inr ())))))"

definition banner :: "string list" where
  "banner =
     [''// The TypeScript definitions below are automatically generated.\<newline>'',
      ''// Do not touch them, or risk, your modifications being lost.\<newline>\<newline>'']"

text \<open>
  \<^verbatim>\<open>updateTypes\<close> on an output stream whose calls return: the calls made on the
  stream and on the database handle, in order, and whether the returned promise is
  rejected. The two calls of the \<^verbatim>\<open>finally\<close> clause follow the \<^verbatim>\<open>try\<close> block however
  it ends.
\<close>

definition updateTypes :: "lodash \<Rightarrow> knex \<Rightarrow> Options \<Rightarrow> call list \<times> (error + unit)" where
  "updateTypes L db options =
     (let overrides = (case opt_overrides options of None \<Rightarrow> emptyObject | Some ov \<Rightarrow> ov);
          sch = entries (opt_schema options) [''public''];
          includeSchemas = fst (partitionSchemas sch);
          excludeSchemas = snd (partitionSchemas sch);
          exclude = entries (opt_exclude options) [];
          prefix = (case opt_prefix options of
                      None \<Rightarrow> []
                    | Some pfx \<Rightarrow> if pfx \<noteq> [] then [pfx, ''\<newline>\<newline>''] else []);
          body = tryBlock L db options overrides includeSchemas excludeSchemas exclude
      in (map Write (banner @ prefix @ fst body) @ [End, Destroy], snd body))"

text \<open>
  The run on any output stream. A stream is given by what its calls do: whether
  \<^verbatim>\<open>write(text)\<close> throws after the texts written so far, and whether \<^verbatim>\<open>end()\<close>
  does. The host gives \<^verbatim>\<open>fs.createWriteStream\<close>, used when \<^verbatim>\<open>options.output\<close> is a
  file name, and the exception that \<^verbatim>\<open>db.destroy()\<close> throws, if any.
\<close>

record writable =
  writeThrows :: "string list \<Rightarrow> string \<Rightarrow> error option"
  endThrows :: "string list \<Rightarrow> error option"

record host =
  createWriteStream :: "string \<Rightarrow> error + writable"
  destroyThrows :: "error option"

text \<open>
  Writing texts one after the other until a call throws: the texts of the calls made,
  the throwing one included, and the exception.
\<close>

fun writeAll :: "writable \<Rightarrow> string list \<Rightarrow> string list \<Rightarrow> string list \<times> error option" where
  "writeAll out written [] = (written, None)"
| "writeAll out written (t # ts) =
     (case writeThrows out written t of
        Some e \<Rightarrow> (written @ [t], Some e)
      | None \<Rightarrow> writeAll out (written @ [t]) ts)"

definition prefixWrites :: "Options \<Rightarrow> string list" where
  "prefixWrites options =
     (case opt_prefix options of
        None \<Rightarrow> []
      | Some pfx \<Rightarrow> if pfx \<noteq> [] then [pfx, ''\<newline>\<newline>''] else [])"

text \<open>Lines 61 to 64: \<^verbatim>\<open>options.output\<close> is a file name (\<open>Inl\<close>) or a stream (\<open>Inr\<close>).\<close>

definition openOutput :: "host \<Rightarrow> string + writable \<Rightarrow> error + writable" where
  "openOutput h output = (case output of Inl path \<Rightarrow> createWriteStream h path | Inr w \<Rightarrow> Inr w)"

text \<open>
  \<^verbatim>\<open>updateTypes\<close> with every exit: an exception of \<^verbatim>\<open>fs.createWriteStream\<close> or of a
  write of the banner or of the prefix leaves the function before the \<^verbatim>\<open>try\<close>
  statement of line 93; a rejected query or a throwing write inside the \<^verbatim>\<open>try\<close> block
  goes to the \<^verbatim>\<open>finally\<close> clause, where an exception of \<^verbatim>\<open>output.end()\<close> leaves before
  \<^verbatim>\<open>db.destroy()\<close>. The writes of the \<^verbatim>\<open>try\<close> block all come before the query that
  is rejected, if one is.
\<close>

definition updateTypesOn ::
  "lodash \<Rightarrow> host \<Rightarrow> knex \<Rightarrow> string + writable \<Rightarrow> Options \<Rightarrow> call list \<times> (error + unit)" where
  "updateTypesOn L h db output options =
     (case openOutput h output of
        Inl e \<Rightarrow> ([], Inl e)
      | Inr out \<Rightarrow>
          (let overrides = (case opt_overrides options of None \<Rightarrow> emptyObject | Some ov \<Rightarrow> ov);
               sch = entries (opt_schema options) [''public''];
               includeSchemas = fst (partitionSchemas sch);
               excludeSchemas = snd (partitionSchemas sch);
               exclude = entries (opt_exclude options) [];
               pre = writeAll out [] (banner @ prefixWrites options)
           in (case snd pre of
                 Some e \<Rightarrow> (map Write (fst pre), Inl e)
               | None \<Rightarrow>
                   (let body = tryBlock L db options overrides includeSchemas excludeSchemas exclude;
                        wr = writeAll out (fst pre) (fst body);
                        tried = (case snd wr of Some e \<Rightarrow> Inl e | None \<Rightarrow> snd body)
                    in (case endThrows out (fst wr) of
                          Some e \<Rightarrow> (map Write (fst wr) @ [End], Inl e)
                        | None \<Rightarrow>
                            (map Write (fst wr) @ [End, Destroy],
                             (case destroyThrows h of Some e \<Rightarrow> Inl e | None \<Rightarrow> tried)))))))"

subsection \<open>The catalog behind the queries\<close>

text \<open>
  The tables that the queries read, each holding its rows in the order of the query's
  \<^verbatim>\<open>orderBy\<close> clauses, and the handle that answers every query from them by its
  \<^verbatim>\<open>where\<close>, \<^verbatim>\<open>whereIn\<close> and \<^verbatim>\<open>whereNotIn\<close> clauses. A row of
  \<open>cat_table_constraints\<close> is the \<^verbatim>\<open>table_schema\<close> with the selected fields.
\<close>

record catalog =
  cat_enums :: "Enum list"
  cat_columns :: "Column list"
  cat_table_constraints :: "(string \<times> TableConstraint) list"
  cat_key_column_usage :: "KeyRow list"
  cat_constraint_column_usage :: "KeyRow list"

definition connect :: "catalog \<Rightarrow> knex" where
  "connect cat =
     \<lparr> selectEnums = Inr (cat_enums cat),
       selectColumns = (\<lambda>inc exc excl.
         Inr (filter (\<lambda>c. schema c \<in> set inc \<and> schema c \<notin> set exc \<and> table c \<notin> set excl)
                (cat_columns cat))),
       selectKeyConstraints = (\<lambda>s.
         Inr (map snd (filter (\<lambda>r. fst r = s
                \<and> tc_constraint_type (snd r) \<in> set [''FOREIGN KEY'', ''UNIQUE'', ''PRIMARY KEY''])
                (cat_table_constraints cat)))),
       selectKeyUsage = (\<lambda>s names.
         Inr (filter (\<lambda>r. key_schema r = s \<and> constraint_name r \<in> set names)
                (cat_key_column_usage cat))),
       selectColumnUsage = (\<lambda>names.
         Inr (filter (\<lambda>r. constraint_name r \<in> set names) (cat_constraint_column_usage cat))) \<rparr>"

subsection \<open>A stand-in for lodash\<close>

text \<open>
  Modelled from the spec: \<^verbatim>\<open>camelCase\<close> and \<^verbatim>\<open>upperFirst\<close> come from the lodash
  package, which is not in the repository. Section 4.4 of the specification describes
  their composition: split on non-alphanumeric boundaries, lower-case each segment except
  for a capital first letter, concatenate, and force the first character of the result
  to upper case. \<^verbatim>\<open>undefined\<close> is converted to the empty string. Only concrete examples
  use this stand-in; the general theorems hold for every pair of functions.
\<close>

definition lowerCase :: "char list" where
  "lowerCase = ''abcdefghijklmnopqrstuvwxyz''"

definition upperCase :: "char list" where
  "upperCase = ''ABCDEFGHIJKLMNOPQRSTUVWXYZ''"

definition toUpper :: "char \<Rightarrow> char" where
  "toUpper c = (case map_of (zip lowerCase upperCase) c of Some u \<Rightarrow> u | None \<Rightarrow> c)"

definition toLower :: "char \<Rightarrow> char" where
  "toLower c = (case map_of (zip upperCase lowerCase) c of Some l \<Rightarrow> l | None \<Rightarrow> c)"

definition isAlnum :: "char \<Rightarrow> bool" where
  "isAlnum c = (c \<in> set (lowerCase @ upperCase @ ''0123456789''))"

fun pieces :: "string \<Rightarrow> string list" where
  "pieces [] = [[]]"
| "pieces (c # cs) =
     (if isAlnum c then (case pieces cs of [] \<Rightarrow> [[c]] | w # ws \<Rightarrow> (c # w) # ws)
      else [] # pieces cs)"

definition segments :: "string \<Rightarrow> string list" where
  "segments s = filter (\<lambda>w. w \<noteq> []) (pieces s)"

definition capitalize :: "string \<Rightarrow> string" where
  "capitalize w = (case w of [] \<Rightarrow> [] | c # cs \<Rightarrow> toUpper c # map toLower cs)"

definition specCamelCase :: "string option \<Rightarrow> string" where
  "specCamelCase v =
     (case v of
        None \<Rightarrow> []
      | Some s \<Rightarrow>
          (case segments s of [] \<Rightarrow> [] | w # ws \<Rightarrow> map toLower w @ concat (map capitalize ws)))"

definition specUpperFirst :: "string \<Rightarrow> string" where
  "specUpperFirst s = (case s of [] \<Rightarrow> [] | c # cs \<Rightarrow> toUpper c # cs)"

definition specLodash :: lodash where
  "specLodash = \<lparr> camelCase = specCamelCase, upperFirst = specUpperFirst \<rparr>"

subsection \<open>Example inputs\<close>

definition defaultOptions :: Options where
  "defaultOptions = \<lparr> opt_overrides = None, opt_prefix = None, opt_suffix = None,
                      opt_schema = None, opt_exclude = None \<rparr>"

definition int4Column :: "string \<Rightarrow> string \<Rightarrow> string \<Rightarrow> Column" where
  "int4Column s t c =
     \<lparr> table = t, column = c, schema = s, nullable = False, default = None,
       type = ''integer'', udt = ''int4'' \<rparr>"

definition textColumn :: "string \<Rightarrow> string \<Rightarrow> string \<Rightarrow> Column" where
  "textColumn s t c =
     \<lparr> table = t, column = c, schema = s, nullable = False, default = None,
       type = ''text'', udt = ''text'' \<rparr>"

definition keyRow :: "string \<Rightarrow> string \<Rightarrow> string \<Rightarrow> string \<Rightarrow> KeyRow" where
  "keyRow s t c n = \<lparr> key_schema = s, key_table = t, key_column = c, constraint_name = n \<rparr>"

definition tableConstraint :: "string \<Rightarrow> string \<Rightarrow> string \<Rightarrow> string \<times> TableConstraint" where
  "tableConstraint s n ty = (s, \<lparr> tc_constraint_name = n, tc_constraint_type = ty \<rparr>)"

text \<open>Schemas \<^verbatim>\<open>log\<close> and \<^verbatim>\<open>public\<close>, each with one table \<^verbatim>\<open>message\<close>.\<close>

definition messageCatalog :: catalog where
  "messageCatalog =
     \<lparr> cat_enums = [],
       cat_columns =
         [textColumn ''log'' ''message'' ''line'',
          textColumn ''public'' ''message'' ''body''],
       cat_table_constraints = [],
       cat_key_column_usage = [],
       cat_constraint_column_usage = [] \<rparr>"

definition messageOptions :: Options where
  "messageOptions = defaultOptions \<lparr> opt_schema := Some (Lst [''log'', ''public'']) \<rparr>"

text \<open>A table \<^verbatim>\<open>profile\<close> whose primary key \<^verbatim>\<open>id\<close> is also a foreign key to \<^verbatim>\<open>user.id\<close>.\<close>

definition profileCatalog :: catalog where
  "profileCatalog =
     \<lparr> cat_enums = [],
       cat_columns =
         [int4Column ''public'' ''profile'' ''id'',
          int4Column ''public'' ''user'' ''id''],
       cat_table_constraints =
         [tableConstraint ''public'' ''profile_pkey'' ''PRIMARY KEY'',
          tableConstraint ''public'' ''profile_id_fkey'' ''FOREIGN KEY'',
          tableConstraint ''public'' ''user_pkey'' ''PRIMARY KEY''],
       cat_key_column_usage =
         [keyRow ''public'' ''profile'' ''id'' ''profile_pkey'',
          keyRow ''public'' ''profile'' ''id'' ''profile_id_fkey'',
          keyRow ''public'' ''user'' ''id'' ''user_pkey''],
       cat_constraint_column_usage =
         [keyRow ''public'' ''profile'' ''id'' ''profile_pkey'',
          keyRow ''public'' ''user'' ''id'' ''profile_id_fkey'',
          keyRow ''public'' ''user'' ''id'' ''user_pkey''] \<rparr>"

text \<open>Scenario C: \<^verbatim>\<open>post.author_id\<close> references \<^verbatim>\<open>user.id\<close>.\<close>

definition postCatalog :: catalog where
  "postCatalog =
     \<lparr> cat_enums = [],
       cat_columns =
         [int4Column ''public'' ''post'' ''author_id'',
          int4Column ''public'' ''user'' ''id''],
       cat_table_constraints =
         [tableConstraint ''public'' ''post_author_id_fkey'' ''FOREIGN KEY'',
          tableConstraint ''public'' ''user_pkey'' ''PRIMARY KEY''],
       cat_key_column_usage =
         [keyRow ''public'' ''post'' ''author_id'' ''post_author_id_fkey'',
          keyRow ''public'' ''user'' ''id'' ''user_pkey''],
       cat_constraint_column_usage =
         [keyRow ''public'' ''user'' ''id'' ''post_author_id_fkey'',
          keyRow ''public'' ''user'' ''id'' ''user_pkey''] \<rparr>"

text \<open>
  The same foreign key when \<^verbatim>\<open>constraint_column_usage\<close> shows no row for it (the view
  lists only the columns of tables owned by an enabled role), the table \<^verbatim>\<open>user\<close> being
  excluded by \<^verbatim>\<open>options.exclude\<close>.
\<close>

definition orphanCatalog :: catalog where
  "orphanCatalog = postCatalog \<lparr> cat_constraint_column_usage := [] \<rparr>"

definition orphanOptions :: Options where
  "orphanOptions = defaultOptions \<lparr> opt_exclude := Some (Lst [''user'']) \<rparr>"

text \<open>A schema \<^verbatim>\<open>auth\<close> that the option both lists and excludes.\<close>

definition authCatalog :: catalog where
  "authCatalog =
     \<lparr> cat_enums = [],
       cat_columns = [textColumn ''auth'' ''session'' ''token''],
       cat_table_constraints = [],
       cat_key_column_usage = [],
       cat_constraint_column_usage = [] \<rparr>"

definition authOptions :: Options where
  "authOptions = defaultOptions \<lparr> opt_schema := Some (Lst [''auth'', ''!auth'']) \<rparr>"

text \<open>A handle whose \<^verbatim>\<open>key_column_usage\<close> query is rejected.\<close>

definition brokenDb :: knex where
  "brokenDb = (connect postCatalog)
     \<lparr> selectKeyUsage := (\<lambda>s names. Inl (QueryError ''connection terminated'')) \<rparr>"

text \<open>A stream whose calls return, a stream whose \<^verbatim>\<open>write\<close> throws, and a host.\<close>

definition quietStream :: writable where
  "quietStream = \<lparr> writeThrows = (\<lambda>written t. None), endThrows = (\<lambda>written. None) \<rparr>"

definition throwingStream :: writable where
  "throwingStream =
     \<lparr> writeThrows = (\<lambda>written t. Some (Thrown ''write failed'')),
       endThrows = (\<lambda>written. None) \<rparr>"

definition quietHost :: host where
  "quietHost = \<lparr> createWriteStream = (\<lambda>path. Inr quietStream), destroyThrows = None \<rparr>"


text \<open>Scenario D: a nullable array of text.\<close>

definition tagsColumn :: Column where
  "tagsColumn =
     \<lparr> table = ''post'', column = ''tags'', schema = ''public'', nullable = True,
       default = None, type = ''ARRAY'', udt = ''_text'' \<rparr>"

section \<open>Properties\<close>

lemmas run_defs =
  updateTypes_def emptyObject_def nativeFunction_def tryBlock_def connect_def entries_def partitionSchemas_def startsWith_def
  endsWith_def banner_def nameOf_def sameKey_def enumsMap_def mkKey_def keyMatches_def
  withKeyInfo_def setOrder_def tableSet_def tableWrites_def schemaName_def tableName_def
  arrayOrType_def brand_def fieldType_def sameTable_def getType_def stringTypes_def
  numberTypes_def dateTypes_def jsonTypes_def jsonType_def sanitize_def isIdentifier_def
  identStart_def identPart_def jsonStringify_def jsonEscape_def

lemmas lodash_defs =
  specLodash_def specCamelCase_def specUpperFirst_def segments_def capitalize_def
  toUpper_def toLower_def isAlnum_def lowerCase_def upperCase_def

subsection \<open>Helper lemmas\<close>

lemma field_line_written:
  "x \<in> set xs \<Longrightarrow>
   (''  '' @ sanitize (column x) @ '': '' @ fieldType L ov em x @ '';\<newline>'')
     \<in> set (recordWrites L ov em prev xs)"
  by (induction xs arbitrary: prev) auto

lemma fetchKeys_connect: "\<exists>ks. fetchKeys (connect cat) ss keys = Inr ks"
proof (induction ss arbitrary: keys)
  case Nil
  show ?case by simp
next
  case (Cons s ss)
  have a: "selectKeyConstraints (connect cat) s = Inr (map snd (filter (\<lambda>r. fst r = s
              \<and> tc_constraint_type (snd r) \<in> set [''FOREIGN KEY'', ''UNIQUE'', ''PRIMARY KEY''])
              (cat_table_constraints cat)))"
    by (simp add: connect_def)
  have b: "\<And>names. selectKeyUsage (connect cat) s names =
      Inr (filter (\<lambda>r. key_schema r = s \<and> constraint_name r \<in> set names) (cat_key_column_usage cat))"
    by (simp add: connect_def)
  have c: "\<And>names. selectColumnUsage (connect cat) names =
      Inr (filter (\<lambda>r. constraint_name r \<in> set names) (cat_constraint_column_usage cat))"
    by (simp add: connect_def)
  show ?case
    unfolding fetchKeys.simps a b c sum.case by (rule Cons.IH)
qed

lemma connect_run_succeeds: "snd (updateTypes L (connect cat) options) = Inr ()"
proof -
  obtain ks where k:
    "fetchKeys (connect cat) (fst (partitionSchemas (entries (opt_schema options) [''public'']))) [] = Inr ks"
    using fetchKeys_connect by blast
  have e: "selectEnums (connect cat) = Inr (cat_enums cat)"
    by (simp add: connect_def)
  have c: "\<And>inc exc excl. \<exists>cs. selectColumns (connect cat) inc exc excl = Inr cs"
    by (simp add: connect_def)
  obtain cs where cs: "selectColumns (connect cat)
      (fst (partitionSchemas (entries (opt_schema options) [''public''])))
      (snd (partitionSchemas (entries (opt_schema options) [''public''])))
      (entries (opt_exclude options) []) = Inr cs"
    using c by blast
  show ?thesis
    by (simp add: updateTypes_def tryBlock_def Let_def e cs k)
qed

lemma jsonEscape_nonempty: "1 \<le> length (jsonEscape c)"
  by (simp add: jsonEscape_def)

lemma length_concat_jsonEscape: "length s \<le> length (concat (map jsonEscape s))"
proof (induction s)
  case Nil
  show ?case by simp
next
  case (Cons c s)
  with jsonEscape_nonempty [of c] show ?case by simp
qed

lemma jsonStringify_longer: "length s < length (jsonStringify s)"
  using length_concat_jsonEscape [of s] by (simp add: jsonStringify_def)

lemma writeAll_quiet: "writeAll quietStream written ts = (written @ ts, None)"
  by (induction ts arbitrary: written) (simp_all add: quietStream_def)

lemma updateTypesOn_quiet:
  "destroyThrows h = None \<Longrightarrow>
   updateTypesOn L h db (Inr quietStream) options = updateTypes L db options"
proof -
  assume d: "destroyThrows h = None"
  have e: "\<And>ws. endThrows quietStream ws = None"
    by (simp add: quietStream_def)
  show ?thesis
    by (simp add: updateTypesOn_def updateTypes_def openOutput_def prefixWrites_def Let_def
        writeAll_quiet e d)
qed

lemma finally_reached_from_try_block:
  assumes "openOutput h output = Inr out"
    and "snd (writeAll out [] (banner @ prefixWrites options)) = None"
  shows "\<exists>ws. fst (updateTypesOn L h db output options) =
           map Write ws @ End # (case endThrows out ws of None \<Rightarrow> [Destroy] | Some e \<Rightarrow> [])"
  using assms
  by (auto simp: updateTypesOn_def Let_def split: option.splits)

subsection \<open>Grouping of the record declarations\<close>

text \<open>
  Claim C1. A record declaration should open wherever consecutive rows differ in the
  pair of schema and table. The source compares \<^verbatim>\<open>table\<close> alone: with the schemas
  \<^verbatim>\<open>log\<close> and \<^verbatim>\<open>public\<close> each holding one table \<^verbatim>\<open>message\<close>, the run lists two
  tables in \<^verbatim>\<open>Table\<close> and \<^verbatim>\<open>Tables\<close>, opens one declaration, \<^verbatim>\<open>LogMessage\<close>, puts the
  field of \<^verbatim>\<open>public.message\<close> inside it and never declares \<^verbatim>\<open>Message\<close>.
\<close>

theorem same_table_name_in_two_schemas:
  \<open>updateTypes specLodash (connect messageCatalog) messageOptions =
     ([Write ''// The TypeScript definitions below are automatically generated.\<newline>'',
       Write ''// Do not touch them, or risk, your modifications being lost.\<newline>\<newline>'',
       Write ''export enum Table {\<newline>'',
       Write ''  LogMessage = "log.message",\<newline>'',
       Write ''  Message = "message",\<newline>'',
       Write ''}\<newline>\<newline>'',
       Write ''export type Tables = {\<newline>'',
       Write ''  "log.message": LogMessage,\<newline>'',
       Write ''  "message": Message,\<newline>'',
       Write ''};\<newline>\<newline>'',
       Write ''export type LogMessage = {\<newline>'',
       Write ''  line: string;\<newline>'',
       Write ''  body: string;\<newline>'',
       Write ''};\<newline>\<newline>'',
       End, Destroy], Inr ())\<close>
  by (simp add: run_defs lodash_defs defaultOptions_def textColumn_def messageCatalog_def
      messageOptions_def)

subsection \<open>Branding\<close>

text \<open>
  Claim C2, as stated, at a primary key \<^verbatim>\<open>id\<close> that is also a foreign key: the column
  receives the tag of its own table and no tag of the referenced table.
\<close>

theorem both_conditions_counterexample:
  \<open>updateTypes specLodash (connect profileCatalog) defaultOptions =
     ([Write ''// The TypeScript definitions below are automatically generated.\<newline>'',
       Write ''// Do not touch them, or risk, your modifications being lost.\<newline>\<newline>'',
       Write ''export enum Table {\<newline>'',
       Write ''  Profile = "profile",\<newline>'',
       Write ''  User = "user",\<newline>'',
       Write ''}\<newline>\<newline>'',
       Write ''export type Tables = {\<newline>'',
       Write ''  "profile": Profile,\<newline>'',
       Write ''  "user": User,\<newline>'',
       Write ''};\<newline>\<newline>'',
       Write ''export type Profile = {\<newline>'',
       Write ''  id: number & { _brand: "Profile" };\<newline>'',
       Write ''};\<newline>\<newline>'',
       Write ''export type User = {\<newline>'',
       Write ''  id: number & { _brand: "User" };\<newline>'',
       Write ''};\<newline>\<newline>'',
       End, Destroy], Inr ())\<close>
  by (simp add: run_defs lodash_defs defaultOptions_def int4Column_def keyRow_def tableConstraint_def
      profileCatalog_def)

text \<open>
  Claim C2, amended. The brand of the own table is appended iff the column is named
  \<^verbatim>\<open>id\<close> and is flagged unique or primary key. The brand of the referenced table is
  appended iff the column is flagged foreign key, its name ends with \<^verbatim>\<open>id\<close>, and the
  first condition does not hold. A column that satisfies both conditions receives the
  tag of its own table only; either brand comes before the null union.
\<close>

theorem branding_conditions:
  \<open>(startsWith (brand L ov x) '' & { _brand: "'' \<longleftrightarrow>
      column x = ''id'' \<and> (is_unique x \<or> is_primary_key x)) \<and>
   (startsWith (brand L ov x) '' & { __flavor?: "'' \<longleftrightarrow>
      is_foreign_key x \<and> endsWith (column x) ''id''
      \<and> \<not> (column x = ''id'' \<and> (is_unique x \<or> is_primary_key x))) \<and>
   (column x = ''id'' \<and> (is_unique x \<or> is_primary_key x) \<longrightarrow>
      fieldType L ov em x =
        arrayOrType em x @ '' & { _brand: "'' @ schemaName L x @ tableName L ov x @ ''" }''
          @ (if nullable x then '' | null'' else [])) \<and>
   (is_foreign_key x \<and> endsWith (column x) ''id''
      \<and> \<not> (column x = ''id'' \<and> (is_unique x \<or> is_primary_key x)) \<longrightarrow>
      fieldType L ov em x =
        arrayOrType em x @ '' & { __flavor?: "''
          @ upperFirst L (camelCase L (map_option key_table (ref_schema x))) @ ''Id" }''
          @ (if nullable x then '' | null'' else []))\<close>
  by (simp add: brand_def fieldType_def startsWith_def)

theorem branding_conditions_witness:
  \<open>fieldType specLodash Map.empty Map.empty
     (withKeyInfo
        [mkKey [snd (tableConstraint ''public'' ''profile_pkey'' ''PRIMARY KEY'')] []
           (keyRow ''public'' ''profile'' ''id'' ''profile_pkey''),
         mkKey [snd (tableConstraint ''public'' ''profile_id_fkey'' ''FOREIGN KEY'')]
           [keyRow ''public'' ''user'' ''id'' ''profile_id_fkey'']
           (keyRow ''public'' ''profile'' ''id'' ''profile_id_fkey'')]
        (int4Column ''public'' ''profile'' ''id''))
     = ''number & { _brand: "Profile" }'' \<and>
   fieldType specLodash Map.empty Map.empty
     (withKeyInfo
        [mkKey [snd (tableConstraint ''public'' ''post_author_id_fkey'' ''FOREIGN KEY'')]
           [keyRow ''public'' ''user'' ''id'' ''post_author_id_fkey'']
           (keyRow ''public'' ''post'' ''author_id'' ''post_author_id_fkey'')]
        (int4Column ''public'' ''post'' ''author_id''))
     = ''number & { __flavor?: "UserId" }''\<close>
  using branding_conditions [of specLodash Map.empty
      "withKeyInfo
        [mkKey [snd (tableConstraint ''public'' ''profile_pkey'' ''PRIMARY KEY'')] []
           (keyRow ''public'' ''profile'' ''id'' ''profile_pkey''),
         mkKey [snd (tableConstraint ''public'' ''profile_id_fkey'' ''FOREIGN KEY'')]
           [keyRow ''public'' ''user'' ''id'' ''profile_id_fkey'']
           (keyRow ''public'' ''profile'' ''id'' ''profile_id_fkey'')]
        (int4Column ''public'' ''profile'' ''id'')" Map.empty]
    branding_conditions [of specLodash Map.empty
      "withKeyInfo
        [mkKey [snd (tableConstraint ''public'' ''post_author_id_fkey'' ''FOREIGN KEY'')]
           [keyRow ''public'' ''user'' ''id'' ''post_author_id_fkey'']
           (keyRow ''public'' ''post'' ''author_id'' ''post_author_id_fkey'')]
        (int4Column ''public'' ''post'' ''author_id'')" Map.empty]
  by (simp add: run_defs lodash_defs int4Column_def keyRow_def tableConstraint_def)

subsection \<open>The schema specifier\<close>

text \<open>
  Claim C3. The entries of the schema list are partitioned by a leading \<^verbatim>\<open>!\<close>, and
  the excluded names should lose it. The source pushes the entry as it is: the list
  \<^verbatim>\<open>["public", "log", "!auth"]\<close> gives the exclude list \<^verbatim>\<open>["!auth"]\<close>, which no
  schema name of the catalog equals, and with \<^verbatim>\<open>["auth", "!auth"]\<close> the tables of the
  schema \<^verbatim>\<open>auth\<close> are written.
\<close>

theorem exclude_entries_keep_prefix:
  \<open>partitionSchemas [''public'', ''log'', ''!auth''] = ([''public'', ''log''], [''!auth'']) \<and>
   updateTypes specLodash (connect authCatalog) authOptions =
     ([Write ''// The TypeScript definitions below are automatically generated.\<newline>'',
       Write ''// Do not touch them, or risk, your modifications being lost.\<newline>\<newline>'',
       Write ''export enum Table {\<newline>'',
       Write ''  AuthSession = "auth.session",\<newline>'',
       Write ''}\<newline>\<newline>'',
       Write ''export type Tables = {\<newline>'',
       Write ''  "auth.session": AuthSession,\<newline>'',
       Write ''};\<newline>\<newline>'',
       Write ''export type AuthSession = {\<newline>'',
       Write ''  token: string;\<newline>'',
       Write ''};\<newline>\<newline>'',
       End, Destroy], Inr ())\<close>
  by (simp add: run_defs lodash_defs defaultOptions_def textColumn_def authCatalog_def
      authOptions_def)

subsection \<open>A foreign key without referenced row\<close>

text \<open>
  Claim C4, as stated, at a foreign key \<^verbatim>\<open>author_id\<close> for which no referenced row is
  found: the run ends normally and the field type carries a brand, with the tag
  \<^verbatim>\<open>Id\<close>.
\<close>

theorem absent_reference_counterexample:
  \<open>updateTypes specLodash (connect orphanCatalog) orphanOptions =
     ([Write ''// The TypeScript definitions below are automatically generated.\<newline>'',
       Write ''// Do not touch them, or risk, your modifications being lost.\<newline>\<newline>'',
       Write ''export enum Table {\<newline>'',
       Write ''  Post = "post",\<newline>'',
       Write ''}\<newline>\<newline>'',
       Write ''export type Tables = {\<newline>'',
       Write ''  "post": Post,\<newline>'',
       Write ''};\<newline>\<newline>'',
       Write ''export type Post = {\<newline>'',
       Write ''  author_id: number & { __flavor?: "Id" };\<newline>'',
       Write ''};\<newline>\<newline>'',
       End, Destroy], Inr ())\<close>
  by (simp add: run_defs lodash_defs defaultOptions_def int4Column_def keyRow_def tableConstraint_def
      postCatalog_def orphanCatalog_def orphanOptions_def)

text \<open>
  Claim C4, amended. A run whose queries are answered never fails, whatever rows the
  catalog holds. A foreign-key column whose name ends with \<^verbatim>\<open>id\<close> and whose referenced
  row is absent still receives a brand: the tag of its own table when it is an
  \<^verbatim>\<open>id\<close> column flagged unique or primary key, and otherwise the foreign tag built
  from \<^verbatim>\<open>upperFirst(camelCase(undefined))\<close> followed by \<^verbatim>\<open>Id\<close>.
\<close>

theorem absent_reference_still_branded:
  \<open>snd (updateTypes L (connect cat) options) = Inr () \<and>
   (is_foreign_key x \<and> endsWith (column x) ''id'' \<and> ref_schema x = None \<longrightarrow>
      fieldType L ov em x =
        arrayOrType em x
        @ (if column x = ''id'' \<and> (is_unique x \<or> is_primary_key x)
           then '' & { _brand: "'' @ schemaName L x @ tableName L ov x @ ''" }''
           else '' & { __flavor?: "'' @ upperFirst L (camelCase L None) @ ''Id" }'')
        @ (if nullable x then '' | null'' else []))\<close>
  by (auto simp: connect_run_succeeds fieldType_def brand_def)

theorem absent_reference_still_branded_witness:
  \<open>snd (updateTypes specLodash (connect orphanCatalog) orphanOptions) = Inr () \<and>
   fieldType specLodash Map.empty Map.empty
     (withKeyInfo
        [mkKey [snd (tableConstraint ''public'' ''post_author_id_fkey'' ''FOREIGN KEY'')] []
           (keyRow ''public'' ''post'' ''author_id'' ''post_author_id_fkey'')]
        (int4Column ''public'' ''post'' ''author_id''))
     = ''number & { __flavor?: "Id" }''\<close>
  using absent_reference_still_branded [of specLodash orphanCatalog orphanOptions
    "withKeyInfo
        [mkKey [snd (tableConstraint ''public'' ''post_author_id_fkey'' ''FOREIGN KEY'')] []
           (keyRow ''public'' ''post'' ''author_id'' ''post_author_id_fkey'')]
        (int4Column ''public'' ''post'' ''author_id'')" Map.empty Map.empty]
  by (simp add: run_defs lodash_defs defaultOptions_def int4Column_def keyRow_def tableConstraint_def
      postCatalog_def orphanCatalog_def orphanOptions_def)

subsection \<open>The type mapping\<close>

text \<open>
  Claim C5. For every native type name of the built-in table, \<open>getType\<close> returns the
  declaration type of its group: \<^verbatim>\<open>boolean\<close>, \<^verbatim>\<open>string\<close>, \<^verbatim>\<open>number\<close>, \<^verbatim>\<open>Date\<close>,
  \<^verbatim>\<open>Buffer\<close>, \<^verbatim>\<open>PostgresInterval\<close>, and for \<^verbatim>\<open>json\<close> and \<^verbatim>\<open>jsonb\<close> the
  structured-data type narrowed by the opening token of the default literal. For every
  other name the enum registry is consulted, and \<^verbatim>\<open>unknown\<close> is returned when the name
  is not in it.
\<close>

theorem getType_mapping_table:
  "getType ''bool'' m d = ''boolean'' \<and>
   (\<forall>u \<in> set [''text'', ''citext'', ''money'', ''numeric'', ''int8'', ''char'', ''character'',
                ''bpchar'', ''varchar'', ''time'', ''tsquery'', ''tsvector'', ''uuid'', ''xml'',
                ''cidr'', ''inet'', ''macaddr'']. getType u m d = ''string'') \<and>
   (\<forall>u \<in> set [''smallint'', ''integer'', ''int'', ''int2'', ''int4'', ''real'', ''float'',
                ''float4'', ''float8'']. getType u m d = ''number'') \<and>
   (\<forall>u \<in> set [''date'', ''timestamp'', ''timestamptz'']. getType u m d = ''Date'') \<and>
   getType ''bytea'' m d = ''Buffer'' \<and>
   getType ''interval'' m d = ''PostgresInterval'' \<and>
   (\<forall>u \<in> set [''json'', ''jsonb''].
      getType u m d =
        (if d = None \<or> d = Some [] then ''unknown''
         else if startsWith (the d) [CHR 0x27, CHR ''{''] then ''Record<string, unknown>''
         else if startsWith (the d) [CHR 0x27, CHR ''[''] then ''unknown[]''
         else ''unknown'')) \<and>
   (\<forall>u. u \<notin> set ([''bool'', ''text'', ''citext'', ''money'', ''numeric'', ''int8'', ''char'',
                ''character'', ''bpchar'', ''varchar'', ''time'', ''tsquery'', ''tsvector'',
                ''uuid'', ''xml'', ''cidr'', ''inet'', ''macaddr'', ''smallint'', ''integer'',
                ''int'', ''int2'', ''int4'', ''real'', ''float'', ''float4'', ''float8'', ''date'',
                ''timestamp'', ''timestamptz'', ''json'', ''jsonb'', ''bytea'', ''interval''])
      \<longrightarrow> getType u m d = (case m u of Some t \<Rightarrow> t | None \<Rightarrow> ''unknown''))"
proof -
  have json: "jsonType d =
        (if d = None \<or> d = Some [] then ''unknown''
         else if startsWith (the d) [CHR 0x27, CHR ''{''] then ''Record<string, unknown>''
         else if startsWith (the d) [CHR 0x27, CHR ''[''] then ''unknown[]''
         else ''unknown'')"
    by (cases d) (simp_all add: jsonType_def)
  have other: "getType u m d = (case m u of Some t \<Rightarrow> t | None \<Rightarrow> ''unknown'')"
    if "u \<noteq> ''bool''" "u \<notin> set stringTypes" "u \<notin> set numberTypes" "u \<notin> set dateTypes"
       "u \<notin> set jsonTypes" "u \<noteq> ''bytea''" "u \<noteq> ''interval''" for u
    using that by (simp add: getType_def)
  show ?thesis
    apply (intro conjI)
           apply (simp add: getType_def)
          apply (simp add: getType_def stringTypes_def)
         apply (simp add: getType_def stringTypes_def numberTypes_def)
        apply (simp add: getType_def stringTypes_def numberTypes_def dateTypes_def)
       apply (simp add: getType_def stringTypes_def numberTypes_def dateTypes_def jsonTypes_def)
      apply (simp add: getType_def stringTypes_def numberTypes_def dateTypes_def jsonTypes_def)
     apply (simp only: json [symmetric])
     apply (simp add: getType_def stringTypes_def numberTypes_def dateTypes_def jsonTypes_def)
    apply (intro allI impI)
    apply (rule other)
          apply (simp_all add: stringTypes_def numberTypes_def dateTypes_def jsonTypes_def)
    done
qed

theorem getType_mapping_table_witness:
  "getType ''varchar'' [''mood'' \<mapsto> ''Mood''] None = ''string'' \<and>
   getType ''float8'' [''mood'' \<mapsto> ''Mood''] None = ''number'' \<and>
   getType ''timestamptz'' [''mood'' \<mapsto> ''Mood''] None = ''Date'' \<and>
   getType ''jsonb'' [''mood'' \<mapsto> ''Mood''] (Some [CHR 0x27, CHR ''['', CHR '']'', CHR 0x27]) = ''unknown[]'' \<and>
   getType ''mood'' [''mood'' \<mapsto> ''Mood''] None = ''Mood'' \<and>
   getType ''geometry'' [''mood'' \<mapsto> ''Mood''] None = ''unknown''"
  using getType_mapping_table [of "[''mood'' \<mapsto> ''Mood'']" None]
    getType_mapping_table [of "[''mood'' \<mapsto> ''Mood'']" "Some [CHR 0x27, CHR ''['', CHR '']'', CHR 0x27]"]
  by (simp add: startsWith_def)

subsection \<open>Nullability\<close>

text \<open>
  Claim C6. The field type of a nullable column is the type the same column has when it
  is not nullable, array suffix and brand included, followed by \<^verbatim>\<open> | null\<close>; this is
  the type in the line written for the column. A nullable array of text that is neither
  an \<^verbatim>\<open>id\<close> column nor a foreign key has the type \<^verbatim>\<open>string[] | null\<close>.
\<close>

theorem nullable_union_applied_last:
  "(nullable x \<longrightarrow>
      fieldType L ov em x = fieldType L ov em (x\<lparr>nullable := False\<rparr>) @ '' | null'') \<and>
   (nullable x \<and> type x = ''ARRAY'' \<and> udt x = ''_text'' \<and> column x \<noteq> ''id'' \<and> \<not> is_foreign_key x \<longrightarrow>
      fieldType L ov em x = ''string[] | null'') \<and>
   (nullable x \<and> x \<in> set xs \<longrightarrow>
      (''  '' @ sanitize (column x) @ '': ''
         @ fieldType L ov em (x\<lparr>nullable := False\<rparr>) @ '' | null'' @ '';\<newline>'')
        \<in> set (recordWrites L ov em None xs))"
proof (intro conjI impI)
  assume "nullable x"
  then show a: "fieldType L ov em x = fieldType L ov em (x\<lparr>nullable := False\<rparr>) @ '' | null''"
    by (simp add: fieldType_def arrayOrType_def brand_def schemaName_def tableName_def)
next
  assume "nullable x \<and> type x = ''ARRAY'' \<and> udt x = ''_text'' \<and> column x \<noteq> ''id'' \<and> \<not> is_foreign_key x"
  then show "fieldType L ov em x = ''string[] | null''"
    by (simp add: fieldType_def arrayOrType_def brand_def getType_def stringTypes_def)
next
  assume h: "nullable x \<and> x \<in> set xs"
  then have "fieldType L ov em x = fieldType L ov em (x\<lparr>nullable := False\<rparr>) @ '' | null''"
    by (simp add: fieldType_def arrayOrType_def brand_def schemaName_def tableName_def)
  with field_line_written [of x xs L ov em None] h
  show "(''  '' @ sanitize (column x) @ '': ''
         @ fieldType L ov em (x\<lparr>nullable := False\<rparr>) @ '' | null'' @ '';\<newline>'')
        \<in> set (recordWrites L ov em None xs)"
    by simp
qed

theorem nullable_union_applied_last_witness:
  "fieldType specLodash Map.empty Map.empty (withKeyInfo [] tagsColumn) = ''string[] | null'' \<and>
   ''  tags: string[] | null;\<newline>''
     \<in> set (recordWrites specLodash Map.empty Map.empty None [withKeyInfo [] tagsColumn])"
  using nullable_union_applied_last [of "withKeyInfo [] tagsColumn" specLodash Map.empty Map.empty
      "[withKeyInfo [] tagsColumn]"]
  by (simp add: run_defs tagsColumn_def)

subsection \<open>Release of the stream and of the connection\<close>

text \<open>
  Claim C7. Every exit of a run should call \<^verbatim>\<open>end\<close> on the output stream once and
  release the database connection. The \<^verbatim>\<open>finally\<close> clause does so for every exit of
  the \<^verbatim>\<open>try\<close> block, but the banner and the prefix are written before the \<^verbatim>\<open>try\<close>
  statement: on a stream whose \<^verbatim>\<open>write\<close> throws, the run makes one call, the write of
  the first banner line, and ends rejected with neither \<^verbatim>\<open>end\<close> nor \<^verbatim>\<open>destroy\<close>.
  A run whose \<^verbatim>\<open>key_column_usage\<close> query is rejected, inside the \<^verbatim>\<open>try\<close> block, ends
  with both calls.
\<close>

theorem write_throws_before_try_block:
  "updateTypesOn specLodash quietHost (connect postCatalog) (Inr throwingStream) defaultOptions =
     ([Write ''// The TypeScript definitions below are automatically generated.\<newline>''],
      Inl (Thrown ''write failed'')) \<and>
   updateTypesOn specLodash quietHost brokenDb (Inr quietStream) defaultOptions =
     ([Write ''// The TypeScript definitions below are automatically generated.\<newline>'',
       Write ''// Do not touch them, or risk, your modifications being lost.\<newline>\<newline>'',
       End, Destroy],
      Inl (QueryError ''connection terminated''))"
proof
  show "updateTypesOn specLodash quietHost (connect postCatalog) (Inr throwingStream) defaultOptions =
     ([Write ''// The TypeScript definitions below are automatically generated.\<newline>''],
      Inl (Thrown ''write failed''))"
    by (simp add: updateTypesOn_def openOutput_def throwingStream_def banner_def prefixWrites_def
        defaultOptions_def Let_def)
next
  have q: "destroyThrows quietHost = None"
    by (simp add: quietHost_def)
  show "updateTypesOn specLodash quietHost brokenDb (Inr quietStream) defaultOptions =
     ([Write ''// The TypeScript definitions below are automatically generated.\<newline>'',
       Write ''// Do not touch them, or risk, your modifications being lost.\<newline>\<newline>'',
       End, Destroy],
      Inl (QueryError ''connection terminated''))"
    unfolding updateTypesOn_quiet [OF q]
    by (simp add: run_defs defaultOptions_def int4Column_def keyRow_def tableConstraint_def
        postCatalog_def brokenDb_def)
qed

subsection \<open>Scenario C and the sanitizer\<close>

text \<open>
  Claim C9, as stated, at the table \<^verbatim>\<open>public.post\<close> of scenario C: the field is
  written under the column name \<^verbatim>\<open>author_id\<close>; no field \<^verbatim>\<open>authorId\<close> is written.
\<close>

theorem scenario_c_field_name_counterexample:
  \<open>updateTypes specLodash (connect postCatalog) defaultOptions =
     ([Write ''// The TypeScript definitions below are automatically generated.\<newline>'',
       Write ''// Do not touch them, or risk, your modifications being lost.\<newline>\<newline>'',
       Write ''export enum Table {\<newline>'',
       Write ''  Post = "post",\<newline>'',
       Write ''  User = "user",\<newline>'',
       Write ''}\<newline>\<newline>'',
       Write ''export type Tables = {\<newline>'',
       Write ''  "post": Post,\<newline>'',
       Write ''  "user": User,\<newline>'',
       Write ''};\<newline>\<newline>'',
       Write ''export type Post = {\<newline>'',
       Write ''  author_id: number & { __flavor?: "UserId" };\<newline>'',
       Write ''};\<newline>\<newline>'',
       Write ''export type User = {\<newline>'',
       Write ''  id: number & { _brand: "User" };\<newline>'',
       Write ''};\<newline>\<newline>'',
       End, Destroy], Inr ())\<close>
  by (simp add: run_defs lodash_defs defaultOptions_def int4Column_def keyRow_def tableConstraint_def
      postCatalog_def)

text \<open>
  Claim C9, amended. For a non-nullable \<^verbatim>\<open>int4\<close> column \<^verbatim>\<open>author_id\<close> that is a
  foreign key referencing the table \<^verbatim>\<open>user\<close>, the record declaration contains the
  field \<^verbatim>\<open>author_id\<close>, the column name as it is, whose type is \<^verbatim>\<open>number\<close>
  intersected with the \<^verbatim>\<open>UserId\<close> flavor tag. The sanitizer returns a name unchanged
  exactly when it matches \<^verbatim>\<open>[A-Za-z$_][A-Za-z$_0-9]*\<close> and otherwise returns it
  between double quotes, escaped as JSON.
\<close>

theorem scenario_c_field_and_sanitizer:
  \<open>(x \<in> set xs \<and> column x = ''author_id'' \<and> type x \<noteq> ''ARRAY'' \<and> udt x = ''int4'' \<and> \<not> nullable x
      \<and> is_foreign_key x \<and> map_option key_table (ref_schema x) = Some ''user''
      \<and> upperFirst L (camelCase L (Some ''user'')) = ''User'' \<longrightarrow>
      ''  author_id: number & { __flavor?: "UserId" };\<newline>'' \<in> set (recordWrites L ov em None xs)) \<and>
   (isIdentifier name \<longleftrightarrow>
      name \<noteq> [] \<and> hd name \<in> set ''abcdefghijklmnopqrstuvwxyzABCDEFGHIJKLMNOPQRSTUVWXYZ$_''
      \<and> set (tl name) \<subseteq> set ''abcdefghijklmnopqrstuvwxyzABCDEFGHIJKLMNOPQRSTUVWXYZ$_0123456789'') \<and>
   (sanitize name = name \<longleftrightarrow> isIdentifier name) \<and>
   (\<not> isIdentifier name \<longrightarrow> sanitize name = ''"'' @ concat (map jsonEscape name) @ ''"'')\<close>
proof (intro conjI impI)
  assume h: "x \<in> set xs \<and> column x = ''author_id'' \<and> type x \<noteq> ''ARRAY'' \<and> udt x = ''int4'' \<and> \<not> nullable x
      \<and> is_foreign_key x \<and> map_option key_table (ref_schema x) = Some ''user''
      \<and> upperFirst L (camelCase L (Some ''user'')) = ''User''"
  then have t: \<open>fieldType L ov em x = ''number & { __flavor?: "UserId" }''\<close>
    by (auto simp: fieldType_def arrayOrType_def brand_def getType_def stringTypes_def
        numberTypes_def endsWith_def)
  have s: "sanitize (column x) = ''author_id''"
    using h by (simp add: sanitize_def isIdentifier_def identStart_def identPart_def)
  from h have "x \<in> set xs" by simp
  from field_line_written [OF this, of L ov em None]
  show \<open>''  author_id: number & { __flavor?: "UserId" };\<newline>'' \<in> set (recordWrites L ov em None xs)\<close>
    by (simp add: t s)
next
  show "isIdentifier name \<longleftrightarrow>
      name \<noteq> [] \<and> hd name \<in> set ''abcdefghijklmnopqrstuvwxyzABCDEFGHIJKLMNOPQRSTUVWXYZ$_''
      \<and> set (tl name) \<subseteq> set ''abcdefghijklmnopqrstuvwxyzABCDEFGHIJKLMNOPQRSTUVWXYZ$_0123456789''"
  proof (cases name)
    case Nil
    then show ?thesis by (simp only: isIdentifier_def list.case simp_thms)
  next
    case (Cons c cs)
    have p: "identPart = ''abcdefghijklmnopqrstuvwxyzABCDEFGHIJKLMNOPQRSTUVWXYZ$_0123456789''"
      by (simp add: identPart_def identStart_def)
    show ?thesis
      unfolding Cons isIdentifier_def p identStart_def
      by (simp only: list.case list.sel list.distinct list_all_iff subset_eq simp_thms)
  qed
next
  show "sanitize name = name \<longleftrightarrow> isIdentifier name"
    using jsonStringify_longer [of name] by (auto simp: sanitize_def)
next
  assume "\<not> isIdentifier name"
  then show \<open>sanitize name = ''"'' @ concat (map jsonEscape name) @ ''"''\<close>
    by (simp add: sanitize_def jsonStringify_def)
qed

theorem scenario_c_field_and_sanitizer_witness:
  \<open>''  author_id: number & { __flavor?: "UserId" };\<newline>''
     \<in> set (recordWrites specLodash Map.empty Map.empty None
          [withKeyInfo
             [mkKey [snd (tableConstraint ''public'' ''post_author_id_fkey'' ''FOREIGN KEY'')]
                [keyRow ''public'' ''user'' ''id'' ''post_author_id_fkey'']
                (keyRow ''public'' ''post'' ''author_id'' ''post_author_id_fkey'')]
             (int4Column ''public'' ''post'' ''author_id'')]) \<and>
   sanitize ''author_id'' = ''author_id'' \<and>
   sanitize ''author id'' = ''"author id"''\<close>
  using scenario_c_field_and_sanitizer [of
    "withKeyInfo
       [mkKey [snd (tableConstraint ''public'' ''post_author_id_fkey'' ''FOREIGN KEY'')]
          [keyRow ''public'' ''user'' ''id'' ''post_author_id_fkey'']
          (keyRow ''public'' ''post'' ''author_id'' ''post_author_id_fkey'')]
       (int4Column ''public'' ''post'' ''author_id'')"
    "[withKeyInfo
       [mkKey [snd (tableConstraint ''public'' ''post_author_id_fkey'' ''FOREIGN KEY'')]
          [keyRow ''public'' ''user'' ''id'' ''post_author_id_fkey'']
          (keyRow ''public'' ''post'' ''author_id'' ''post_author_id_fkey'')]
       (int4Column ''public'' ''post'' ''author_id'')]"
    specLodash Map.empty Map.empty "''author_id''"]
    scenario_c_field_and_sanitizer [of _ _ _ _ _ "''author id''"]
  by (simp add: withKeyInfo_def mkKey_def keyMatches_def lodash_defs int4Column_def keyRow_def tableConstraint_def jsonEscape_def)

subsection \<open>The banner\<close>



end
